theory Spec2Isabelle
  imports Main "HOL-Library.Char_ord" "HOL-Library.List_Lexorder"
begin

section \<open>Python values, errors and strings\<close>

text \<open>
  The views of \<^verbatim>\<open>project/manager_frontend/views/roms.py\<close> are Python 2 code on
  Django. Byte strings are \<open>string\<close>; their comparison is the lexicographic order on
  bytes, which is the order of \<open>List_Lexorder\<close> over \<open>Char_ord\<close>. Every exception the
  views can raise is a value of \<open>error\<close>, and a function that can raise returns
  \<open>error + 'a\<close>.
\<close>

datatype error =
    Http404
  | OSError string
  | KeyError string
  | AttributeError
  | ValidationError string

datatype pyval = PStr string | PInt int | PBool bool | PList "pyval list" | PNone

type_synonym dict = "string \<rightharpoonup> pyval"

text \<open>\<^verbatim>\<open>s.startswith(p)\<close> and \<^verbatim>\<open>s.endswith(p)\<close>.\<close>

definition startswith :: "string \<Rightarrow> string \<Rightarrow> bool" where
  "startswith s p = (take (length p) s = p)"

definition endswith :: "string \<Rightarrow> string \<Rightarrow> bool" where
  "endswith s p = (length p \<le> length s \<and> drop (length s - length p) s = p)"

text \<open>
  \<^verbatim>\<open>os.path.join(a, b)\<close> of posixpath, for two components: an absolute second
  component replaces the first one, otherwise the two are joined by one separator.
\<close>

definition os_path_join :: "string \<Rightarrow> string \<Rightarrow> string" where
  "os_path_join a b =
     (if startswith b ''/'' then b
      else if a = [] \<or> endswith a ''/'' then a @ b
      else a @ ''/'' @ b)"

text \<open>\<^verbatim>\<open>os.path.basename(p)\<close>: what follows the last separator.\<close>

definition os_path_basename :: "string \<Rightarrow> string" where
  "os_path_basename p = rev (takeWhile (\<lambda>c. c \<noteq> CHR ''/'') (rev p))"

text \<open>\<^verbatim>\<open>sep.join(xs)\<close>.\<close>

fun str_join :: "string \<Rightarrow> string list \<Rightarrow> string" where
  "str_join sep [] = []"
| "str_join sep [x] = x"
| "str_join sep (x # y # ys) = x @ sep @ str_join sep (y # ys)"

section \<open>The filesystem\<close>

text \<open>
  A filesystem maps a path to what \<^verbatim>\<open>stat\<close> finds there: a regular file with its
  size, a directory with its size and the names \<^verbatim>\<open>os.listdir\<close> returns (in that
  order), or something else that exists (a FIFO, a socket, a device). A path that is
  not in the map does not exist; a dangling symbolic link is a name listed by its
  directory whose path is not in the map.

  Every call into the filesystem is recorded as an \<open>fs_op\<close>, so that a function
  returns the calls it made next to its result.
\<close>

datatype node = File nat | Dir nat "string list" | Special nat

type_synonym filesystem = "string \<rightharpoonup> node"

datatype fs_op =
    Exists string
  | IsDir string
  | IsFile string
  | GetSize string
  | ListDir string

definition os_path_exists :: "filesystem \<Rightarrow> string \<Rightarrow> bool" where
  "os_path_exists fs p = (fs p \<noteq> None)"

definition os_path_isdir :: "filesystem \<Rightarrow> string \<Rightarrow> bool" where
  "os_path_isdir fs p = (case fs p of Some (Dir sz names) \<Rightarrow> True | _ \<Rightarrow> False)"

definition os_path_isfile :: "filesystem \<Rightarrow> string \<Rightarrow> bool" where
  "os_path_isfile fs p = (case fs p of Some (File sz) \<Rightarrow> True | _ \<Rightarrow> False)"

definition os_path_getsize :: "filesystem \<Rightarrow> string \<Rightarrow> error + nat" where
  "os_path_getsize fs p =
     (case fs p of
        None \<Rightarrow> Inl (OSError p)
      | Some (File sz) \<Rightarrow> Inr sz
      | Some (Dir sz names) \<Rightarrow> Inr sz
      | Some (Special sz) \<Rightarrow> Inr sz)"

definition os_listdir :: "filesystem \<Rightarrow> string \<Rightarrow> error + string list" where
  "os_listdir fs p =
     (case fs p of
        Some (Dir sz names) \<Rightarrow> Inr names
      | _ \<Rightarrow> Inl (OSError p))"

section \<open>Settings and the view object\<close>

text \<open>
  \<^verbatim>\<open>django.conf.settings\<close> is one object shared by every request of the process.
  The three settings the views read are its fields; the manifest maps a system key
  to a dict, and the default entry is a dict.

  \<^verbatim>\<open>self.system_manifest\<close> is a reference to a dict that lives in the settings:
  either the manifest's entry of a key or the default entry itself (no copy is
  made), so it is modelled by which of the two objects it designates.
\<close>

record settings =
  RECALBOX_ROMS_PATH :: string
  RECALBOX_MANIFEST :: "string \<rightharpoonup> dict"
  RECALBOX_SYSTEM_DEFAULT :: dict

datatype manifest_ref = ManifestEntry string | DefaultManifest

record view =
  system_key :: string
  system_path :: string
  system_manifest :: manifest_ref

section \<open>RomListView.get_rom_choices\<close>

text \<open>
  The loop over \<^verbatim>\<open>os.listdir(self.system_path)\<close>: \<open>rom_list\<close> is the list built so
  far. \<^verbatim>\<open>and\<close> evaluates \<^verbatim>\<open>isfile\<close> first and \<^verbatim>\<open>startswith\<close> only when it holds.
\<close>

fun rom_list_loop ::
  "filesystem \<Rightarrow> string \<Rightarrow> string list \<Rightarrow> (string \<times> nat) list
     \<Rightarrow> fs_op list \<times> (error + (string \<times> nat) list)" where
  "rom_list_loop fs path [] rom_list = ([], Inr rom_list)"
| "rom_list_loop fs path (item # items) rom_list =
     (if os_path_isfile fs (os_path_join path item) \<and> \<not> startswith item ''.'' then
        (case os_path_getsize fs (os_path_join path item) of
           Inl e \<Rightarrow>
             ([IsFile (os_path_join path item), GetSize (os_path_join path item)], Inl e)
         | Inr sz \<Rightarrow>
             (case rom_list_loop fs path items (rom_list @ [(item, sz)]) of
                (ops, r) \<Rightarrow>
                  (IsFile (os_path_join path item) # GetSize (os_path_join path item) # ops, r)))
      else
        (case rom_list_loop fs path items rom_list of
           (ops, r) \<Rightarrow> (IsFile (os_path_join path item) # ops, r)))"

definition get_rom_choices ::
  "filesystem \<Rightarrow> view \<Rightarrow> fs_op list \<times> (error + (string \<times> nat) list)" where
  "get_rom_choices fs self =
     (case os_listdir fs (system_path self) of
        Inl e \<Rightarrow> ([ListDir (system_path self)], Inl e)
      | Inr items \<Rightarrow>
          (case rom_list_loop fs (system_path self) items [] of
             (ops, Inl e) \<Rightarrow> (ListDir (system_path self) # ops, Inl e)
           | (ops, Inr rom_list) \<Rightarrow>
               (ListDir (system_path self) # ops, Inr (sort_key fst rom_list))))"

section \<open>SystemsListView.get_system_list\<close>

text \<open>
  The loop over \<^verbatim>\<open>os.listdir(path)\<close>; \<open>system_dirs\<close> is the list built so far.
  \<^verbatim>\<open>settings.RECALBOX_MANIFEST[item]['name']\<close> raises \<^verbatim>\<open>KeyError\<close> when the entry
  of the manifest has no name.
\<close>

fun system_dirs_loop ::
  "filesystem \<Rightarrow> (string \<rightharpoonup> dict) \<Rightarrow> string \<Rightarrow> string list \<Rightarrow> (string \<times> pyval) list
     \<Rightarrow> fs_op list \<times> (error + (string \<times> pyval) list)" where
  "system_dirs_loop fs manifest path [] system_dirs = ([], Inr system_dirs)"
| "system_dirs_loop fs manifest path (item # items) system_dirs =
     (if os_path_isdir fs (os_path_join path item) \<and> \<not> startswith item ''.'' then
        (case manifest item of
           Some entry \<Rightarrow>
             (case entry ''name'' of
                None \<Rightarrow> ([IsDir (os_path_join path item)], Inl (KeyError ''name''))
              | Some name \<Rightarrow>
                  (case system_dirs_loop fs manifest path items (system_dirs @ [(item, name)]) of
                     (ops, r) \<Rightarrow> (IsDir (os_path_join path item) # ops, r)))
         | None \<Rightarrow>
             (case system_dirs_loop fs manifest path items (system_dirs @ [(item, PStr item)]) of
                (ops, r) \<Rightarrow> (IsDir (os_path_join path item) # ops, r)))
      else
        (case system_dirs_loop fs manifest path items system_dirs of
           (ops, r) \<Rightarrow> (IsDir (os_path_join path item) # ops, r)))"

definition get_system_list ::
  "filesystem \<Rightarrow> settings \<Rightarrow> fs_op list \<times> (error + (string \<times> pyval) list)" where
  "get_system_list fs conf =
     (case os_listdir fs (RECALBOX_ROMS_PATH conf) of
        Inl e \<Rightarrow> ([ListDir (RECALBOX_ROMS_PATH conf)], Inl e)
      | Inr items \<Rightarrow>
          (case system_dirs_loop fs (RECALBOX_MANIFEST conf) (RECALBOX_ROMS_PATH conf) items [] of
             (ops, Inl e) \<Rightarrow> (ListDir (RECALBOX_ROMS_PATH conf) # ops, Inl e)
           | (ops, Inr system_dirs) \<Rightarrow>
               (ListDir (RECALBOX_ROMS_PATH conf) # ops, Inr (sort_key fst system_dirs))))"

section \<open>RomListView.init_system, get and post\<close>

text \<open>
  \<open>kwargs\<close> are the URL's keyword arguments. \<^verbatim>\<open>self.kwargs.get('system')\<close> is
  \<^verbatim>\<open>None\<close> when the URL gave none, and \<^verbatim>\<open>os.path.join\<close> then raises
  \<^verbatim>\<open>AttributeError\<close>. \<^verbatim>\<open>or\<close> stops at its first true operand, so \<^verbatim>\<open>isdir\<close> is
  called only on a path that exists.

  \<^verbatim>\<open>default_manifest\<close> is the object \<^verbatim>\<open>settings.RECALBOX_SYSTEM_DEFAULT\<close> itself;
  \<^verbatim>\<open>update\<close> writes the two keys into it, so the function returns the settings as
  it leaves them.
\<close>

definition init_system ::
  "filesystem \<Rightarrow> settings \<Rightarrow> (string \<rightharpoonup> string) \<Rightarrow> fs_op list \<times> settings \<times> (error + view)" where
  "init_system fs conf kwargs =
     (case kwargs ''system'' of
        None \<Rightarrow> ([], conf, Inl AttributeError)
      | Some key \<Rightarrow>
          (let path = os_path_join (RECALBOX_ROMS_PATH conf) key in
           if \<not> os_path_exists fs path then ([Exists path], conf, Inl Http404)
           else if \<not> os_path_isdir fs path \<or> startswith key ''.'' then
             ([Exists path, IsDir path], conf, Inl Http404)
           else
             ([Exists path, IsDir path],
              conf\<lparr>RECALBOX_SYSTEM_DEFAULT :=
                     (RECALBOX_SYSTEM_DEFAULT conf)(''key'' \<mapsto> PStr key, ''name'' \<mapsto> PStr key)\<rparr>,
              Inr \<lparr>system_key = key, system_path = path,
                   system_manifest =
                     (case RECALBOX_MANIFEST conf key of
                        Some entry \<Rightarrow> ManifestEntry key
                      | None \<Rightarrow> DefaultManifest)\<rparr>)))"

text \<open>
  \<^verbatim>\<open>get\<close> and \<^verbatim>\<open>post\<close> run \<^verbatim>\<open>init_system\<close> and then the handler of the parent
  class \<^verbatim>\<open>MultiFormView\<close> (\<^verbatim>\<open>project.utils.views\<close>), which is a parameter here: it
  receives the filesystem, the settings and the initialised view, and returns its
  filesystem calls, the filesystem and settings as it leaves them, and its result.
\<close>

type_synonym 'r handler =
  "filesystem \<Rightarrow> settings \<Rightarrow> view \<Rightarrow> fs_op list \<times> filesystem \<times> settings \<times> (error + 'r)"

definition get ::
  "'r handler \<Rightarrow> filesystem \<Rightarrow> settings \<Rightarrow> (string \<rightharpoonup> string)
     \<Rightarrow> fs_op list \<times> filesystem \<times> settings \<times> (error + 'r)" where
  "get super_get fs conf kwargs =
     (case init_system fs conf kwargs of
        (ops, conf', Inl e) \<Rightarrow> (ops, fs, conf', Inl e)
      | (ops, conf', Inr self) \<Rightarrow>
          (case super_get fs conf' self of
             (ops', fs', conf'', r) \<Rightarrow> (ops @ ops', fs', conf'', r)))"

definition post ::
  "'r handler \<Rightarrow> filesystem \<Rightarrow> settings \<Rightarrow> (string \<rightharpoonup> string)
     \<Rightarrow> fs_op list \<times> filesystem \<times> settings \<times> (error + 'r)" where
  "post super_post fs conf kwargs =
     (case init_system fs conf kwargs of
        (ops, conf', Inl e) \<Rightarrow> (ops, fs, conf', Inl e)
      | (ops, conf', Inr self) \<Rightarrow>
          (case super_post fs conf' self of
             (ops', fs', conf'', r) \<Rightarrow> (ops @ ops', fs', conf'', r)))"

text \<open>Whether a filesystem call enumerates a directory.\<close>

fun is_listing :: "fs_op \<Rightarrow> bool" where
  "is_listing (ListDir p) = True"
| "is_listing other = False"

section \<open>RomListView.get_delete_form_kwargs\<close>

datatype kwval = KwChoices "(string \<times> nat) list" | KwStr string | KwOther string

definition get_delete_form_kwargs ::
  "filesystem \<Rightarrow> view \<Rightarrow> (string \<rightharpoonup> kwval) \<Rightarrow> fs_op list \<times> (error + (string \<rightharpoonup> kwval))" where
  "get_delete_form_kwargs fs self kwargs =
     (case get_rom_choices fs self of
        (ops, Inl e) \<Rightarrow> (ops, Inl e)
      | (ops, Inr romchoices) \<Rightarrow>
          (ops, Inr (kwargs(''romchoices'' \<mapsto> KwChoices romchoices,
                            ''system'' \<mapsto> KwStr (system_key self)))))"

section \<open>Flash messages of RomListView\<close>

text \<open>
  \<open>Formatted t a\<close> is the text \<^verbatim>\<open>_(t).format(a)\<close>: the translation of the template
  \<open>t\<close> in the active language, with \<open>a\<close> as its argument. \<^verbatim>\<open>messages.success\<close>
  appends a message of level success to the messages of the request.

  The argument \<open>saved\<close> of \<^verbatim>\<open>upload_form_valid\<close> and of \<^verbatim>\<open>delete_form_valid\<close> is
  what \<^verbatim>\<open>form.save()\<close> did: the exception it raised or the value it returned (a
  path; a list of paths or \<^verbatim>\<open>None\<close>). The forms are in
  \<^verbatim>\<open>project.manager_frontend.forms.roms\<close>.
\<close>

datatype msg_text = Formatted string string

datatype flash = Success msg_text

definition upload_form_valid :: "flash list \<Rightarrow> error + string \<Rightarrow> error + flash list" where
  "upload_form_valid messages saved =
     (case saved of
        Inl e \<Rightarrow> Inl e
      | Inr uploaded_file \<Rightarrow>
          Inr (messages @
                 [Success (Formatted ''File has been uploaded: {}''
                                     (os_path_basename uploaded_file))]))"

definition delete_form_valid ::
  "flash list \<Rightarrow> error + string list option \<Rightarrow> error + flash list" where
  "delete_form_valid messages saved =
     (case saved of
        Inl e \<Rightarrow> Inl e
      | Inr None \<Rightarrow> Inr messages
      | Inr (Some deleted_files) \<Rightarrow>
          (if deleted_files \<noteq> [] \<and> length deleted_files > 0 then
             Inr (messages @
                    [Success (Formatted ''Deleted file(s): {}''
                                        (str_join '', '' (map os_path_basename deleted_files)))])
           else Inr messages))"

section \<open>RomUploadJsonView\<close>

text \<open>
  A form, as \<^verbatim>\<open>form_invalid\<close> reads it: its \<^verbatim>\<open>form_key\<close> and \<^verbatim>\<open>errors.as_data()\<close>,
  a dict from a field's name to the messages of its errors
  (\<^verbatim>\<open>str(item.message)\<close> of each).

  The content of a response is the string given to \<^verbatim>\<open>json_response\<close>, or
  \<open>JsonDumps d\<close>: the text \<^verbatim>\<open>json.dumps(d)\<close> of the dict \<open>d\<close>.
\<close>

record form =
  form_key :: string
  errors :: "string \<rightharpoonup> string list"

datatype backend = BStr string | BDict "string \<rightharpoonup> string"

datatype body = Raw string | JsonDumps "string \<rightharpoonup> string"

datatype response_klass = HttpResponse | HttpResponseBadRequest

fun klass_status :: "response_klass \<Rightarrow> nat" where
  "klass_status HttpResponse = 200"
| "klass_status HttpResponseBadRequest = 400"

record response =
  status_code :: nat
  content :: body
  headers :: "string \<rightharpoonup> string"

definition json_response :: "backend \<Rightarrow> response_klass \<Rightarrow> response" where
  "json_response backend klass =
     \<lparr>status_code = klass_status klass,
      content = (case backend of BStr s \<Rightarrow> Raw s | BDict d \<Rightarrow> JsonDumps d),
      headers = [''Content-Type'' \<mapsto> ''application/json; charset=utf-8'',
                 ''Pragma'' \<mapsto> ''no-cache'',
                 ''Cache-Control'' \<mapsto> ''no-cache, no-store, must-revalidate, max-age=0'']\<rparr>"

definition json_upload_form_valid :: "error + string \<Rightarrow> error + response" where
  "json_upload_form_valid saved =
     (case saved of
        Inl e \<Rightarrow> Inl e
      | Inr uploaded_file \<Rightarrow> Inr (json_response (BDict [''status'' \<mapsto> ''success'']) HttpResponse))"

text \<open>The loop of \<^verbatim>\<open>form_invalid\<close> over its arguments, \<open>error_msg\<close> being its variable.\<close>

fun form_invalid_loop :: "form list \<Rightarrow> string \<Rightarrow> string" where
  "form_invalid_loop [] error_msg = error_msg"
| "form_invalid_loop (f # fs) error_msg =
     (if form_key f = ''upload'' then
        (case errors f ''rom'' of
           Some error_context \<Rightarrow>
             (if length error_context > 1 then
                form_invalid_loop fs (str_join [CHR 0x0A] error_context)
              else if length error_context = 1 then
                form_invalid_loop fs (str_join [] error_context)
              else form_invalid_loop fs error_msg)
         | None \<Rightarrow> form_invalid_loop fs error_msg)
      else form_invalid_loop fs error_msg)"

definition form_invalid :: "form list \<Rightarrow> response" where
  "form_invalid args =
     (let forms_errors = [''error'' \<mapsto> ''Unknow error occured''];
          error_msg = form_invalid_loop args [];
          forms_errors = (if error_msg \<noteq> [] then forms_errors(''error'' \<mapsto> error_msg)
                          else forms_errors)
      in json_response (BDict forms_errors) HttpResponseBadRequest)"

section \<open>The delete form\<close>

text \<open>
  Modelled from the spec: \<^verbatim>\<open>RomDeleteForm\<close> of
  \<^verbatim>\<open>project.manager_frontend.forms.roms\<close> is not among the sources. The spec (4.5):
  every selected name must appear in the valid rom choices; a name that does not is
  a validation error naming it, and then nothing is deleted; on success each selected
  file is removed from the system's directory and the deleted files are returned.
\<close>

definition spec_delete_clean :: "(string \<times> nat) list \<Rightarrow> string list \<Rightarrow> error + string list" where
  "spec_delete_clean romchoices selected =
     (case find (\<lambda>n. n \<notin> set (map fst romchoices)) selected of
        Some n \<Rightarrow> Inl (ValidationError n)
      | None \<Rightarrow> Inr selected)"

definition os_remove :: "filesystem \<Rightarrow> string \<Rightarrow> string \<Rightarrow> filesystem" where
  "os_remove fs path name =
     (fs(path := (case fs path of
                    Some (Dir sz names) \<Rightarrow> Some (Dir sz (removeAll name names))
                  | other \<Rightarrow> other)))
       (os_path_join path name := None)"

fun spec_delete_save :: "filesystem \<Rightarrow> string \<Rightarrow> string list \<Rightarrow> filesystem \<times> string list" where
  "spec_delete_save fs path [] = (fs, [])"
| "spec_delete_save fs path (n # ns) =
     (case spec_delete_save (os_remove fs path n) path ns of
        (fs', deleted) \<Rightarrow> (fs', os_path_join path n # deleted))"

text \<open>
  A delete submission: the form is built from \<^verbatim>\<open>get_delete_form_kwargs\<close>, validated
  against the \<^verbatim>\<open>romchoices\<close> found there, and saved when it is valid. The result is
  the filesystem afterwards and the deleted files or the error.
\<close>

definition delete_submission ::
  "filesystem \<Rightarrow> view \<Rightarrow> (string \<rightharpoonup> kwval) \<Rightarrow> string list \<Rightarrow> filesystem \<times> (error + string list)" where
  "delete_submission fs self kwargs selected =
     (case get_delete_form_kwargs fs self kwargs of
        (ops, Inl e) \<Rightarrow> (fs, Inl e)
      | (ops, Inr kw) \<Rightarrow>
          (case kw ''romchoices'' of
             Some (KwChoices romchoices) \<Rightarrow>
               (case spec_delete_clean romchoices selected of
                  Inl e \<Rightarrow> (fs, Inl e)
                | Inr names \<Rightarrow>
                    (case spec_delete_save fs (system_path self) names of
                       (fs', deleted) \<Rightarrow> (fs', Inr deleted)))
           | other \<Rightarrow> (fs, Inl (KeyError ''romchoices''))))"

section \<open>Auxiliary notions for the statements\<close>

text \<open>The size of the regular file at a path, and 0 where there is none.\<close>

definition file_size :: "filesystem \<Rightarrow> string \<Rightarrow> nat" where
  "file_size fs p = (case fs p of Some (File sz) \<Rightarrow> sz | _ \<Rightarrow> 0)"

text \<open>
  The name the systems listing shows for a key: the manifest's configured name of the
  key, or the key itself when the manifest does not have it.
\<close>

definition shown_as :: "(string \<rightharpoonup> dict) \<Rightarrow> string \<Rightarrow> pyval \<Rightarrow> bool" where
  "shown_as manifest k v =
     (case manifest k of
        Some entry \<Rightarrow> entry ''name'' = Some v
      | None \<Rightarrow> v = PStr k)"

text \<open>
  The messages of the \<open>rom\<close> field of a form, and their text as the spec words it:
  the single message, or the messages joined by newlines.
\<close>

definition rom_messages :: "form \<Rightarrow> string list" where
  "rom_messages f = (case errors f ''rom'' of Some ms \<Rightarrow> ms | None \<Rightarrow> [])"

definition spec_rom_message :: "form \<Rightarrow> string" where
  "spec_rom_message f = str_join [CHR 0x0A] (rom_messages f)"

text \<open>The \<open>rom\<close> messages of the upload forms among some forms.\<close>

definition upload_rom_messages :: "form list \<Rightarrow> string list" where
  "upload_rom_messages args =
     concat (map rom_messages (filter (\<lambda>g. form_key g = ''upload'') args))"

text \<open>A response that is JSON and forbids caching.\<close>

definition no_cache_json :: "response \<Rightarrow> bool" where
  "no_cache_json r =
     (headers r ''Content-Type'' = Some ''application/json; charset=utf-8''
      \<and> headers r ''Pragma'' = Some ''no-cache''
      \<and> headers r ''Cache-Control'' = Some ''no-cache, no-store, must-revalidate, max-age=0'')"

section \<open>An example installation\<close>

definition example_fs :: filesystem where
  "example_fs =
     [''/roms'' \<mapsto> Dir 4096 [''snes'', ''.cache'', ''nes'', ''readme.txt''],
      ''/roms/snes'' \<mapsto> Dir 4096 [''zelda.smc'', ''.hidden'', ''mario.smc'', ''saves'', ''.dotfile''],
      ''/roms/snes/zelda.smc'' \<mapsto> File 2048,
      ''/roms/snes/.hidden'' \<mapsto> Dir 4096 [],
      ''/roms/snes/mario.smc'' \<mapsto> File 1024,
      ''/roms/snes/saves'' \<mapsto> Dir 4096 [],
      ''/roms/snes/.dotfile'' \<mapsto> File 7,
      ''/roms/.cache'' \<mapsto> Dir 4096 [],
      ''/roms/nes'' \<mapsto> Dir 4096 [],
      ''/roms/readme.txt'' \<mapsto> File 12]"

definition example_settings :: settings where
  "example_settings =
     \<lparr>RECALBOX_ROMS_PATH = ''/roms'',
      RECALBOX_MANIFEST = [''snes'' \<mapsto> [''name'' \<mapsto> PStr ''Super Nintendo'']],
      RECALBOX_SYSTEM_DEFAULT = [''extensions'' \<mapsto> PList []]\<rparr>"

definition snes_view :: view where
  "snes_view =
     \<lparr>system_key = ''snes'', system_path = ''/roms/snes'', system_manifest = ManifestEntry ''snes''\<rparr>"

text \<open>A filesystem where the configured root \<open>/roms\<close> is missing, and one where it is a file.\<close>

definition rootless_fs :: filesystem where
  "rootless_fs = [''/home'' \<mapsto> Dir 4096 []]"

definition root_is_file_fs :: filesystem where
  "root_is_file_fs = [''/roms'' \<mapsto> File 3]"

text \<open>
  A handler for \<^verbatim>\<open>get\<close> and \<^verbatim>\<open>post\<close> that counts the ROMs of the system, as
  \<^verbatim>\<open>get_context_data\<close> does for \<^verbatim>\<open>total_roms\<close>.
\<close>

definition total_roms_handler :: "nat handler" where
  "total_roms_handler fs conf self =
     (case get_rom_choices fs self of
        (ops, Inl e) \<Rightarrow> (ops, fs, conf, Inl e)
      | (ops, Inr roms) \<Rightarrow> (ops, fs, conf, Inr (length roms)))"

text \<open>
  Invalid forms: an upload form refused as a whole, one with no file, one with two
  messages on its file, and a delete form with an unknown choice.
\<close>

definition upload_refused_form :: form where
  "upload_refused_form =
     \<lparr>form_key = ''upload'', errors = [''__all__'' \<mapsto> [''Upload refused'']]\<rparr>"

definition upload_no_file_form :: form where
  "upload_no_file_form =
     \<lparr>form_key = ''upload'', errors = [''rom'' \<mapsto> [''This field is required.'']]\<rparr>"

definition upload_two_messages_form :: form where
  "upload_two_messages_form =
     \<lparr>form_key = ''upload'', errors = [''rom'' \<mapsto> [''Bad extension'', ''Too big'']]\<rparr>"

definition delete_unknown_form :: form where
  "delete_unknown_form =
     \<lparr>form_key = ''delete'', errors = [''roms'' \<mapsto> [''Select a valid choice.'']]\<rparr>"

text \<open>The keyword arguments the delete form starts from.\<close>

definition delete_kwargs :: "string \<rightharpoonup> kwval" where
  "delete_kwargs = [''prefix'' \<mapsto> KwOther ''delete'']"

section \<open>Facts about the filesystem calls\<close>

lemma isfile_iff: "os_path_isfile fs p \<longleftrightarrow> (\<exists>sz. fs p = Some (File sz))"
  by (auto simp: os_path_isfile_def split: option.splits node.splits)

lemma isdir_iff: "os_path_isdir fs p \<longleftrightarrow> (\<exists>sz names. fs p = Some (Dir sz names))"
  by (auto simp: os_path_isdir_def split: option.splits node.splits)

lemma getsize_file: "fs p = Some (File sz) \<Longrightarrow> os_path_getsize fs p = Inr sz"
  by (simp add: os_path_getsize_def)


lemma rom_list_loop_result:
  "snd (rom_list_loop fs path items acc) =
     Inr (acc @ map (\<lambda>n. (n, file_size fs (os_path_join path n)))
              (filter (\<lambda>n. os_path_isfile fs (os_path_join path n) \<and> \<not> startswith n ''.'') items))"
proof (induction items arbitrary: acc)
  case Nil
  show ?case by simp
next
  case (Cons item items)
  show ?case
  proof (cases "os_path_isfile fs (os_path_join path item) \<and> \<not> startswith item ''.''")
    case True
    then obtain sz where f: "fs (os_path_join path item) = Some (File sz)"
      by (auto simp: isfile_iff)
    show ?thesis using True f getsize_file [of fs "os_path_join path item" sz, OF f] Cons.IH [of "acc @ [(item, sz)]"]
      by (simp add: split_def file_size_def)
  next
    case False
    then show ?thesis using Cons.IH [of acc] by (auto simp add: split_def)
  qed
qed

lemma get_rom_choices_result:
  assumes "fs (system_path self) = Some (Dir dsz names)"
  shows "snd (get_rom_choices fs self) =
     Inr (sort_key fst (map (\<lambda>n. (n, file_size fs (os_path_join (system_path self) n)))
              (filter (\<lambda>n. os_path_isfile fs (os_path_join (system_path self) n) \<and> \<not> startswith n ''.'') names)))"
proof -
  obtain ops r where l: "rom_list_loop fs (system_path self) names [] = (ops, r)"
    by (cases "rom_list_loop fs (system_path self) names []")
  with rom_list_loop_result [of fs "system_path self" names "[]"]
  have "r = Inr (map (\<lambda>n. (n, file_size fs (os_path_join (system_path self) n)))
              (filter (\<lambda>n. os_path_isfile fs (os_path_join (system_path self) n) \<and> \<not> startswith n ''.'') names))"
    by simp
  with l assms show ?thesis
    by (simp add: get_rom_choices_def os_listdir_def)
qed

section \<open>The ROM listing\<close>

text \<open>
  C1. For every system directory, \<^verbatim>\<open>get_rom_choices\<close> returns a list whose pairs are
  exactly the \<open>(name, size)\<close> of the listed entries that are regular files and whose
  name does not start with \<open>.\<close>, with no entry lost or repeated, sorted ascending by
  name.
\<close>

theorem get_rom_choices_lists_files:
  assumes "fs (system_path self) = Some (Dir dsz names)"
  shows "\<exists>roms. snd (get_rom_choices fs self) = Inr roms
     \<and> (\<forall>n sz. (n, sz) \<in> set roms \<longleftrightarrow>
           n \<in> set names \<and> fs (os_path_join (system_path self) n) = Some (File sz)
           \<and> \<not> startswith n ''.'')
     \<and> length roms =
         length (filter (\<lambda>n. os_path_isfile fs (os_path_join (system_path self) n)
                             \<and> \<not> startswith n ''.'') names)
     \<and> sorted (map fst roms)"
proof -
  let ?keep = "\<lambda>n. os_path_isfile fs (os_path_join (system_path self) n) \<and> \<not> startswith n ''.''"
  let ?roms = "sort_key fst (map (\<lambda>n. (n, file_size fs (os_path_join (system_path self) n)))
                 (filter ?keep names))"
  have r: "snd (get_rom_choices fs self) = Inr ?roms"
    by (rule get_rom_choices_result [of fs self dsz names, OF assms])
  have m: "\<forall>n sz. (n, sz) \<in> set ?roms \<longleftrightarrow>
           n \<in> set names \<and> fs (os_path_join (system_path self) n) = Some (File sz)
           \<and> \<not> startswith n ''.''"
    by (auto simp: isfile_iff file_size_def)
  have l: "length ?roms = length (filter ?keep names)" by simp
  have s: "sorted (map fst ?roms)" by (rule sorted_sort_key)
  from r m l s show ?thesis by blast
qed

text \<open>The theorem at the directory \<open>/roms/snes\<close> of the example.\<close>

theorem get_rom_choices_lists_files_witness:
  "example_fs (system_path snes_view) =
     Some (Dir 4096 [''zelda.smc'', ''.hidden'', ''mario.smc'', ''saves'', ''.dotfile''])
   \<and> (\<exists>roms. snd (get_rom_choices example_fs snes_view) = Inr roms
     \<and> (\<forall>n sz. (n, sz) \<in> set roms \<longleftrightarrow>
           n \<in> set [''zelda.smc'', ''.hidden'', ''mario.smc'', ''saves'', ''.dotfile'']
           \<and> example_fs (os_path_join (system_path snes_view) n) = Some (File sz)
           \<and> \<not> startswith n ''.'')
     \<and> sorted (map fst roms))"
proof -
  have h: "example_fs (system_path snes_view) =
     Some (Dir 4096 [''zelda.smc'', ''.hidden'', ''mario.smc'', ''saves'', ''.dotfile''])"
    by (simp add: example_fs_def snes_view_def)
  from get_rom_choices_lists_files
         [of example_fs snes_view 4096
             "[''zelda.smc'', ''.hidden'', ''mario.smc'', ''saves'', ''.dotfile'']", OF h] h
  show ?thesis by blast
qed

text \<open>The scenario of the spec: a hidden directory and a hidden file are left out.\<close>

lemma get_rom_choices_example:
  "snd (get_rom_choices example_fs snes_view) = Inr [(''mario.smc'', 1024), (''zelda.smc'', 2048)]"
  by (simp add: get_rom_choices_def example_fs_def snes_view_def os_listdir_def os_path_join_def
        startswith_def endswith_def os_path_isfile_def os_path_getsize_def)

section \<open>The systems listing\<close>

lemma system_dirs_loop_result:
  assumes "\<forall>k entry. manifest k = Some entry \<longrightarrow> entry ''name'' \<noteq> None"
  shows "snd (system_dirs_loop fs manifest path items acc) =
     Inr (acc @ map (\<lambda>k. (k, case manifest k of Some entry \<Rightarrow> the (entry ''name'') | None \<Rightarrow> PStr k))
              (filter (\<lambda>k. os_path_isdir fs (os_path_join path k) \<and> \<not> startswith k ''.'') items))"
proof (induction items arbitrary: acc)
  case Nil
  show ?case by simp
next
  case (Cons item items)
  show ?case
  proof (cases "os_path_isdir fs (os_path_join path item) \<and> \<not> startswith item ''.''")
    case False
    then show ?thesis using Cons.IH [of acc] by (auto simp add: split_def)
  next
    case True
    show ?thesis
    proof (cases "manifest item")
      case None
      then show ?thesis using True Cons.IH [of "acc @ [(item, PStr item)]"]
        by (simp add: split_def)
    next
      case (Some entry)
      with assms obtain name where n: "entry ''name'' = Some name" by blast
      show ?thesis using True Some n Cons.IH [of "acc @ [(item, name)]"]
        by (simp add: split_def)
    qed
  qed
qed

lemma get_system_list_result:
  assumes "fs (RECALBOX_ROMS_PATH conf) = Some (Dir dsz names)"
      and "\<forall>k entry. RECALBOX_MANIFEST conf k = Some entry \<longrightarrow> entry ''name'' \<noteq> None"
  shows "snd (get_system_list fs conf) =
     Inr (sort_key fst
           (map (\<lambda>k. (k, case RECALBOX_MANIFEST conf k of
                            Some entry \<Rightarrow> the (entry ''name'') | None \<Rightarrow> PStr k))
              (filter (\<lambda>k. os_path_isdir fs (os_path_join (RECALBOX_ROMS_PATH conf) k)
                           \<and> \<not> startswith k ''.'') names)))"
proof -
  obtain ops r where
    l: "system_dirs_loop fs (RECALBOX_MANIFEST conf) (RECALBOX_ROMS_PATH conf) names [] = (ops, r)"
    by (cases "system_dirs_loop fs (RECALBOX_MANIFEST conf) (RECALBOX_ROMS_PATH conf) names []")
  with system_dirs_loop_result
         [of "RECALBOX_MANIFEST conf" fs "RECALBOX_ROMS_PATH conf" names "[]", OF assms(2)]
  have "r = Inr (map (\<lambda>k. (k, case RECALBOX_MANIFEST conf k of
                            Some entry \<Rightarrow> the (entry ''name'') | None \<Rightarrow> PStr k))
              (filter (\<lambda>k. os_path_isdir fs (os_path_join (RECALBOX_ROMS_PATH conf) k)
                           \<and> \<not> startswith k ''.'') names))"
    by simp
  with l assms(1) show ?thesis
    by (simp add: get_system_list_def os_listdir_def)
qed

text \<open>
  C2. For every root directory and every manifest whose entries have a name,
  \<^verbatim>\<open>get_system_list\<close> returns a list whose pairs are exactly the \<open>(key, name)\<close> of
  the listed entries that are directories and whose name does not start with \<open>.\<close>,
  the name being the manifest's configured name when the manifest has the key and the
  key itself otherwise, with no entry lost or repeated, sorted ascending by key.
\<close>

theorem get_system_list_lists_directories:
  assumes "fs (RECALBOX_ROMS_PATH conf) = Some (Dir dsz names)"
      and "\<forall>k entry. RECALBOX_MANIFEST conf k = Some entry \<longrightarrow> entry ''name'' \<noteq> None"
  shows "\<exists>systems. snd (get_system_list fs conf) = Inr systems
     \<and> (\<forall>k v. (k, v) \<in> set systems \<longleftrightarrow>
           k \<in> set names \<and> os_path_isdir fs (os_path_join (RECALBOX_ROMS_PATH conf) k)
           \<and> \<not> startswith k ''.'' \<and> shown_as (RECALBOX_MANIFEST conf) k v)
     \<and> length systems =
         length (filter (\<lambda>k. os_path_isdir fs (os_path_join (RECALBOX_ROMS_PATH conf) k)
                             \<and> \<not> startswith k ''.'') names)
     \<and> sorted (map fst systems)"
proof -
  let ?keep = "\<lambda>k. os_path_isdir fs (os_path_join (RECALBOX_ROMS_PATH conf) k) \<and> \<not> startswith k ''.''"
  let ?name = "\<lambda>k. case RECALBOX_MANIFEST conf k of
                            Some entry \<Rightarrow> the (entry ''name'') | None \<Rightarrow> PStr k"
  let ?systems = "sort_key fst (map (\<lambda>k. (k, ?name k)) (filter ?keep names))"
  have r: "snd (get_system_list fs conf) = Inr ?systems"
    by (rule get_system_list_result [of fs conf dsz names, OF assms])
  have n: "shown_as (RECALBOX_MANIFEST conf) k v \<longleftrightarrow> v = ?name k" for k v
    using assms(2) by (auto simp: shown_as_def split: option.splits)
  have m: "\<forall>k v. (k, v) \<in> set ?systems \<longleftrightarrow>
           k \<in> set names \<and> os_path_isdir fs (os_path_join (RECALBOX_ROMS_PATH conf) k)
           \<and> \<not> startswith k ''.'' \<and> shown_as (RECALBOX_MANIFEST conf) k v"
    unfolding n by auto
  have l: "length ?systems = length (filter ?keep names)" by simp
  have s: "sorted (map fst ?systems)" by (rule sorted_sort_key)
  from r m l s show ?thesis by blast
qed

text \<open>The theorem at the root \<open>/roms\<close> of the example.\<close>

lemma example_manifest_named:
  "\<forall>k entry. RECALBOX_MANIFEST example_settings k = Some entry \<longrightarrow> entry ''name'' \<noteq> None"
  by (auto simp: example_settings_def split: if_splits)

theorem get_system_list_lists_directories_witness:
  "example_fs (RECALBOX_ROMS_PATH example_settings) =
     Some (Dir 4096 [''snes'', ''.cache'', ''nes'', ''readme.txt''])
   \<and> (\<exists>systems. snd (get_system_list example_fs example_settings) = Inr systems
     \<and> (\<forall>k v. (k, v) \<in> set systems \<longleftrightarrow>
           k \<in> set [''snes'', ''.cache'', ''nes'', ''readme.txt'']
           \<and> os_path_isdir example_fs (os_path_join (RECALBOX_ROMS_PATH example_settings) k)
           \<and> \<not> startswith k ''.'' \<and> shown_as (RECALBOX_MANIFEST example_settings) k v)
     \<and> sorted (map fst systems))"
proof -
  have h: "example_fs (RECALBOX_ROMS_PATH example_settings) =
     Some (Dir 4096 [''snes'', ''.cache'', ''nes'', ''readme.txt''])"
    by (simp add: example_fs_def example_settings_def)
  from get_system_list_lists_directories
         [of example_fs example_settings 4096 "[''snes'', ''.cache'', ''nes'', ''readme.txt'']",
          OF h example_manifest_named] h
  show ?thesis by blast
qed

text \<open>The scenario of the spec: the file and the hidden directory are left out.\<close>

lemma get_system_list_example:
  "snd (get_system_list example_fs example_settings) =
     Inr [(''nes'', PStr ''nes''), (''snes'', PStr ''Super Nintendo'')]"
  by (simp add: get_system_list_def example_fs_def example_settings_def os_listdir_def
        os_path_join_def startswith_def endswith_def os_path_isdir_def)

text \<open>
  C5, as stated, fails: with the root \<open>/roms\<close> missing, the listing does not fail with
  the 404 error; \<^verbatim>\<open>os.listdir\<close> raises \<^verbatim>\<open>OSError\<close> and nothing catches it.
\<close>

theorem get_system_list_missing_root_counterexample:
  "\<not> os_path_exists rootless_fs (RECALBOX_ROMS_PATH example_settings)
   \<and> snd (get_system_list rootless_fs example_settings) = Inl (OSError ''/roms'')
   \<and> snd (get_system_list rootless_fs example_settings) \<noteq> Inl Http404"
  by (simp add: os_path_exists_def add: get_system_list_def rootless_fs_def example_settings_def os_listdir_def)

text \<open>
  C5, amended. If the root ROMs path does not exist or is not a directory, the systems
  listing fails with the filesystem error of the directory enumeration, \<^verbatim>\<open>OSError\<close>,
  after that one filesystem call.
\<close>

theorem get_system_list_missing_root:
  assumes "\<not> os_path_exists fs (RECALBOX_ROMS_PATH conf) \<or> \<not> os_path_isdir fs (RECALBOX_ROMS_PATH conf)"
  shows "get_system_list fs conf =
           ([ListDir (RECALBOX_ROMS_PATH conf)], Inl (OSError (RECALBOX_ROMS_PATH conf)))"
  using assms
  by (auto simp: get_system_list_def os_listdir_def os_path_exists_def os_path_isdir_def
           split: option.splits node.splits)

text \<open>The theorem at the filesystem without \<open>/roms\<close>.\<close>

theorem get_system_list_missing_root_witness:
  "\<not> os_path_exists rootless_fs (RECALBOX_ROMS_PATH example_settings)
   \<and> get_system_list rootless_fs example_settings = ([ListDir ''/roms''], Inl (OSError ''/roms''))"
proof -
  have h: "\<not> os_path_exists rootless_fs (RECALBOX_ROMS_PATH example_settings)
      \<or> \<not> os_path_isdir rootless_fs (RECALBOX_ROMS_PATH example_settings)"
    by (simp add: os_path_exists_def rootless_fs_def example_settings_def)
  have e: "\<not> os_path_exists rootless_fs (RECALBOX_ROMS_PATH example_settings)"
    by (simp add: os_path_exists_def rootless_fs_def example_settings_def)
  from get_system_list_missing_root [of rootless_fs example_settings, OF h] e
  show ?thesis by (simp add: example_settings_def)
qed

text \<open>The same when \<open>/roms\<close> is a regular file.\<close>

lemma get_system_list_root_is_file:
  "get_system_list root_is_file_fs example_settings = ([ListDir ''/roms''], Inl (OSError ''/roms''))"
  by (simp add: get_system_list_def root_is_file_fs_def example_settings_def os_listdir_def)

section \<open>The existence check of the rom-list view\<close>

lemma init_system_404:
  assumes "kwargs ''system'' = Some key"
      and "\<not> os_path_exists fs (os_path_join (RECALBOX_ROMS_PATH conf) key)
           \<or> \<not> os_path_isdir fs (os_path_join (RECALBOX_ROMS_PATH conf) key)
           \<or> startswith key ''.''"
  shows "\<exists>ops. init_system fs conf kwargs = (ops, conf, Inl Http404)
           \<and> set ops \<subseteq> {Exists (os_path_join (RECALBOX_ROMS_PATH conf) key),
                          IsDir (os_path_join (RECALBOX_ROMS_PATH conf) key)}"
  using assms by (auto simp: init_system_def Let_def)

text \<open>
  C3. For a GET and for a POST of the rom-list view, whatever the handler of the
  parent class is: if the system's path does not exist, or is not a directory, or the
  system key starts with \<open>.\<close>, the request fails with the 404 error, the filesystem and
  the settings are as before, and none of the filesystem calls made enumerates a
  directory.
\<close>

theorem rom_list_request_not_found:
  assumes "kwargs ''system'' = Some key"
      and "\<not> os_path_exists fs (os_path_join (RECALBOX_ROMS_PATH conf) key)
           \<or> \<not> os_path_isdir fs (os_path_join (RECALBOX_ROMS_PATH conf) key)
           \<or> startswith key ''.''"
  shows "\<exists>ops. get super_get fs conf kwargs = (ops, fs, conf, Inl Http404)
           \<and> post super_post fs conf kwargs = (ops, fs, conf, Inl Http404)
           \<and> \<not> list_ex is_listing ops"
proof -
  from init_system_404 [of kwargs key fs conf, OF assms] obtain ops where
    i: "init_system fs conf kwargs = (ops, conf, Inl Http404)" and
    o: "set ops \<subseteq> {Exists (os_path_join (RECALBOX_ROMS_PATH conf) key),
                     IsDir (os_path_join (RECALBOX_ROMS_PATH conf) key)}"
    by blast
  have g: "get super_get fs conf kwargs = (ops, fs, conf, Inl Http404)"
    using i by (simp add: get_def)
  have p: "post super_post fs conf kwargs = (ops, fs, conf, Inl Http404)"
    using i by (simp add: post_def)
  have "\<not> is_listing op" if "op \<in> set ops" for op
    using o that by auto
  then have l: "\<not> list_ex is_listing ops"
    by (simp add: list_ex_iff)
  from g p l show ?thesis by blast
qed

text \<open>The theorem at the hidden directory \<open>/roms/.cache\<close> of the example, which exists.\<close>

theorem rom_list_request_not_found_witness:
  "[''system'' \<mapsto> ''.cache''] ''system'' = Some ''.cache''
   \<and> os_path_isdir example_fs (os_path_join (RECALBOX_ROMS_PATH example_settings) ''.cache'')
   \<and> startswith ''.cache'' ''.''
   \<and> (\<exists>ops. get total_roms_handler example_fs example_settings [''system'' \<mapsto> ''.cache'']
               = (ops, example_fs, example_settings, Inl Http404)
           \<and> post total_roms_handler example_fs example_settings [''system'' \<mapsto> ''.cache'']
               = (ops, example_fs, example_settings, Inl Http404)
           \<and> \<not> list_ex is_listing ops)"
proof -
  have k: "[''system'' \<mapsto> ''.cache''] ''system'' = Some ''.cache''" by simp
  have h: "\<not> os_path_exists example_fs (os_path_join (RECALBOX_ROMS_PATH example_settings) ''.cache'')
        \<or> \<not> os_path_isdir example_fs (os_path_join (RECALBOX_ROMS_PATH example_settings) ''.cache'')
        \<or> startswith ''.cache'' ''.''"
    by (simp add: startswith_def)
  have s: "startswith ''.cache'' ''.''"
    by (simp add: startswith_def)
  have d: "os_path_isdir example_fs (os_path_join (RECALBOX_ROMS_PATH example_settings) ''.cache'')"
    by (simp add: os_path_isdir_def os_path_join_def example_fs_def example_settings_def
          startswith_def endswith_def)
  from rom_list_request_not_found
         [of "[''system'' \<mapsto> ''.cache'']" "''.cache''" example_fs example_settings
             total_roms_handler total_roms_handler, OF k h] k d s
  show ?thesis by blast
qed

text \<open>
  For comparison, the calls of a request that passes the check, and the two other ways
  not to pass it: a key with no directory and a key that names a file.
\<close>

lemma get_example_lists:
  "get total_roms_handler example_fs example_settings [''system'' \<mapsto> ''snes'']
     = ([Exists ''/roms/snes'', IsDir ''/roms/snes'', ListDir ''/roms/snes'',
         IsFile ''/roms/snes/zelda.smc'', GetSize ''/roms/snes/zelda.smc'',
         IsFile ''/roms/snes/.hidden'',
         IsFile ''/roms/snes/mario.smc'', GetSize ''/roms/snes/mario.smc'',
         IsFile ''/roms/snes/saves'', IsFile ''/roms/snes/.dotfile''],
        example_fs,
        example_settings\<lparr>RECALBOX_SYSTEM_DEFAULT :=
           (RECALBOX_SYSTEM_DEFAULT example_settings)
             (''key'' \<mapsto> PStr ''snes'', ''name'' \<mapsto> PStr ''snes'')\<rparr>,
        Inr 2)"
  by (simp add: Let_def get_def init_system_def total_roms_handler_def get_rom_choices_def
        example_fs_def example_settings_def os_listdir_def os_path_join_def os_path_exists_def
        os_path_isdir_def startswith_def endswith_def os_path_isfile_def os_path_getsize_def)

lemma get_missing_key:
  "get total_roms_handler example_fs example_settings [''system'' \<mapsto> ''gba'']
     = ([Exists ''/roms/gba''], example_fs, example_settings, Inl Http404)"
  by (simp add: Let_def get_def init_system_def example_fs_def example_settings_def os_path_join_def
        os_path_exists_def startswith_def endswith_def)

lemma get_file_key:
  "get total_roms_handler example_fs example_settings [''system'' \<mapsto> ''readme.txt'']
     = ([Exists ''/roms/readme.txt'', IsDir ''/roms/readme.txt''], example_fs, example_settings,
        Inl Http404)"
  by (simp add: Let_def get_def init_system_def example_fs_def example_settings_def os_path_join_def
        os_path_exists_def os_path_isdir_def startswith_def endswith_def)

section \<open>The shared settings\<close>

text \<open>
  C4. Every rom-list request that passes the check writes into the shared settings:
  \<^verbatim>\<open>init_system\<close> leaves \<^verbatim>\<open>settings.RECALBOX_SYSTEM_DEFAULT\<close> with the keys \<open>key\<close> and
  \<open>name\<close> set to the system key of the request, whether the manifest has the key or
  not.
\<close>

theorem init_system_writes_default_template:
  assumes "kwargs ''system'' = Some key"
      and "os_path_isdir fs (os_path_join (RECALBOX_ROMS_PATH conf) key)"
      and "\<not> startswith key ''.''"
  shows "RECALBOX_SYSTEM_DEFAULT (fst (snd (init_system fs conf kwargs)))
           = (RECALBOX_SYSTEM_DEFAULT conf)(''key'' \<mapsto> PStr key, ''name'' \<mapsto> PStr key)"
proof -
  from assms(2) have "os_path_exists fs (os_path_join (RECALBOX_ROMS_PATH conf) key)"
    by (auto simp: isdir_iff os_path_exists_def)
  with assms show ?thesis
    by (simp add: init_system_def Let_def)
qed

text \<open>
  The theorem at a request for the key \<open>nes\<close> of the example, which has a directory and
  is absent from the manifest: the default template is not what it was before the
  request.
\<close>

theorem init_system_writes_default_template_witness:
  "[''system'' \<mapsto> ''nes''] ''system'' = Some ''nes''
   \<and> os_path_isdir example_fs (os_path_join (RECALBOX_ROMS_PATH example_settings) ''nes'')
   \<and> \<not> startswith ''nes'' ''.''
   \<and> RECALBOX_MANIFEST example_settings ''nes'' = None
   \<and> RECALBOX_SYSTEM_DEFAULT example_settings = [''extensions'' \<mapsto> PList []]
   \<and> RECALBOX_SYSTEM_DEFAULT
        (fst (snd (init_system example_fs example_settings [''system'' \<mapsto> ''nes''])))
      = [''extensions'' \<mapsto> PList [], ''key'' \<mapsto> PStr ''nes'', ''name'' \<mapsto> PStr ''nes'']
   \<and> RECALBOX_SYSTEM_DEFAULT
        (fst (snd (init_system example_fs example_settings [''system'' \<mapsto> ''nes''])))
      \<noteq> RECALBOX_SYSTEM_DEFAULT example_settings"
proof -
  have k: "[''system'' \<mapsto> ''nes''] ''system'' = Some ''nes''" by simp
  have d: "os_path_isdir example_fs (os_path_join (RECALBOX_ROMS_PATH example_settings) ''nes'')"
    by (simp add: os_path_isdir_def os_path_join_def example_fs_def example_settings_def
          startswith_def endswith_def)
  have s: "\<not> startswith ''nes'' ''.''" by (simp add: startswith_def)
  have m: "RECALBOX_MANIFEST example_settings ''nes'' = None"
    by (simp add: example_settings_def)
  have t: "RECALBOX_SYSTEM_DEFAULT example_settings = [''extensions'' \<mapsto> PList []]"
    by (simp add: example_settings_def)
  have a: "RECALBOX_SYSTEM_DEFAULT
        (fst (snd (init_system example_fs example_settings [''system'' \<mapsto> ''nes''])))
      = [''extensions'' \<mapsto> PList [], ''key'' \<mapsto> PStr ''nes'', ''name'' \<mapsto> PStr ''nes'']"
    using init_system_writes_default_template
            [of "[''system'' \<mapsto> ''nes'']" "''nes''" example_fs example_settings, OF k d s]
    by (simp add: t)
  have "[''extensions'' \<mapsto> PList [], ''key'' \<mapsto> PStr ''nes'', ''name'' \<mapsto> PStr ''nes''] ''name''
          \<noteq> [''extensions'' \<mapsto> PList []] ''name''"
    by simp
  then have n: "[''extensions'' \<mapsto> PList [], ''key'' \<mapsto> PStr ''nes'', ''name'' \<mapsto> PStr ''nes'']
          \<noteq> [''extensions'' \<mapsto> PList []]"
    by metis
  from k d s m t a n show ?thesis by simp
qed

text \<open>The manifest table and the root path are never written.\<close>

lemma init_system_keeps_manifest:
  "RECALBOX_MANIFEST (fst (snd (init_system fs conf kwargs))) = RECALBOX_MANIFEST conf"
  by (simp add: init_system_def Let_def split: option.splits)

lemma init_system_keeps_roms_path:
  "RECALBOX_ROMS_PATH (fst (snd (init_system fs conf kwargs))) = RECALBOX_ROMS_PATH conf"
  by (simp add: init_system_def Let_def split: option.splits)

section \<open>The JSON upload view\<close>

lemma str_join_single: "str_join sep [m] = m"
  by simp

lemma length_one_join:
  "length ms = Suc 0 \<Longrightarrow> str_join [] ms = str_join [CHR 0x0A] ms"
  by (cases ms) auto

lemma form_invalid_loop_no_rom_message:
  "\<forall>f\<in>set args. form_key f = ''upload'' \<longrightarrow> rom_messages f = []
     \<Longrightarrow> form_invalid_loop args acc = acc"
  by (induction args arbitrary: acc)
     (auto simp: rom_messages_def split: option.splits)

lemma form_invalid_loop_step:
  assumes "form_key f = ''upload''"
  shows "form_invalid_loop (f # args) acc =
       form_invalid_loop args (if rom_messages f = [] then acc else spec_rom_message f)"
proof (cases "errors f ''rom''")
  case None
  with assms show ?thesis by (simp add: rom_messages_def)
next
  case (Some ms)
  note u = assms
  from Some have r: "rom_messages f = ms" by (simp add: rom_messages_def)
  consider "ms = []" | "length ms = Suc 0" | "Suc 0 < length ms"
    by (cases ms) auto
  then show ?thesis
  proof cases
    case 1
    with u Some r show ?thesis by simp
  next
    case 2
    then have "ms \<noteq> []" by auto
    with 2 u Some r show ?thesis
      by (simp add: spec_rom_message_def length_one_join)
  next
    case 3
    then have "ms \<noteq> []" by auto
    with 3 u Some r show ?thesis
      by (simp add: spec_rom_message_def)
  qed
qed

lemma form_invalid_loop_one_upload:
  "filter (\<lambda>g. form_key g = ''upload'') args = [f]
     \<Longrightarrow> form_invalid_loop args acc = (if rom_messages f = [] then acc else spec_rom_message f)"
proof (induction args arbitrary: acc)
  case Nil
  then show ?case by simp
next
  case (Cons g args)
  show ?case
  proof (cases "form_key g = ''upload''")
    case True
    with Cons.prems have g: "g = f" and rest: "filter (\<lambda>g. form_key g = ''upload'') args = []"
      by auto
    from rest have "\<forall>h\<in>set args. form_key h = ''upload'' \<longrightarrow> rom_messages h = []"
      by (auto simp: filter_empty_conv)
    then have "form_invalid_loop args a = a" for a
      by (rule form_invalid_loop_no_rom_message)
    with True g show ?thesis
      by (simp only: form_invalid_loop_step)
  next
    case False
    with Cons.prems have "filter (\<lambda>g. form_key g = ''upload'') args = [f]" by simp
    from Cons.IH [OF this] False show ?thesis by simp
  qed
qed

text \<open>
  C6, as stated, fails: an upload form that is invalid with no message on its \<open>rom\<close>
  field gets the body \<open>{"error": "Unknow error occured"}\<close>, whose message is not the
  text of the \<open>rom\<close> field's messages (there are none, and their text is empty).
\<close>

theorem json_upload_form_invalid_counterexample:
  "errors upload_refused_form ''rom'' = None
   \<and> content (form_invalid [upload_refused_form]) = JsonDumps [''error'' \<mapsto> ''Unknow error occured'']
   \<and> content (form_invalid [upload_refused_form])
        \<noteq> JsonDumps [''error'' \<mapsto> spec_rom_message upload_refused_form]"
proof -
  have a: "errors upload_refused_form ''rom'' = None"
    by (simp add: upload_refused_form_def)
  have b: "content (form_invalid [upload_refused_form]) = JsonDumps [''error'' \<mapsto> ''Unknow error occured'']"
    by (simp add: form_invalid_def json_response_def upload_refused_form_def)
  have c: "spec_rom_message upload_refused_form = []"
    by (simp add: spec_rom_message_def rom_messages_def upload_refused_form_def)
  have "[''error'' \<mapsto> ''Unknow error occured''] ''error'' \<noteq> [''error'' \<mapsto> ([]::string)] ''error''"
    by simp
  then have d: "[''error'' \<mapsto> ''Unknow error occured''] \<noteq> [''error'' \<mapsto> ([]::string)]"
    by metis
  from a b c d show ?thesis by simp
qed

text \<open>
  C6, amended. When the upload form validates and is saved, the response has status
  200 and the JSON body \<open>{"status": "success"}\<close>. When the forms fail validation, at
  most one of them being an upload form, the response has status 400 and the JSON
  body \<open>{"error": m}\<close>, where \<open>m\<close> is the single or newline-joined message(s) of the
  upload form's \<open>rom\<close> field when there is such a message and that text is not empty,
  and \<open>Unknow error occured\<close> otherwise; no other field of any form has a part in it.
\<close>

theorem json_upload_view_responses:
  assumes "length (filter (\<lambda>g. form_key g = ''upload'') args) \<le> 1"
  shows "(\<exists>r. json_upload_form_valid (Inr uploaded_file) = Inr r
              \<and> status_code r = 200 \<and> content r = JsonDumps [''status'' \<mapsto> ''success''])
       \<and> status_code (form_invalid args) = 400
       \<and> content (form_invalid args) =
           JsonDumps [''error'' \<mapsto>
             (if str_join [CHR 0x0A] (upload_rom_messages args) = [] then ''Unknow error occured''
              else str_join [CHR 0x0A] (upload_rom_messages args))]"
proof -
  have v: "\<exists>r. json_upload_form_valid (Inr uploaded_file) = Inr r
              \<and> status_code r = 200 \<and> content r = JsonDumps [''status'' \<mapsto> ''success'']"
    by (simp add: json_upload_form_valid_def json_response_def)
  have s: "status_code (form_invalid args) = 400"
    by (simp add: form_invalid_def json_response_def Let_def)
  have l: "form_invalid_loop args [] = str_join [CHR 0x0A] (upload_rom_messages args)"
  proof (cases "filter (\<lambda>g. form_key g = ''upload'') args")
    case Nil
    then have "\<forall>f\<in>set args. form_key f = ''upload'' \<longrightarrow> rom_messages f = []"
      by (auto simp: filter_empty_conv)
    then have "form_invalid_loop args [] = []"
      by (rule form_invalid_loop_no_rom_message)
    with Nil show ?thesis by (simp add: upload_rom_messages_def)
  next
    case (Cons f rest)
    with assms have one: "filter (\<lambda>g. form_key g = ''upload'') args = [f]" by simp
    from form_invalid_loop_one_upload [OF one, of "[]"] one show ?thesis
      by (simp add: upload_rom_messages_def spec_rom_message_def)
  qed
  have c: "content (form_invalid args) =
           JsonDumps [''error'' \<mapsto>
             (if str_join [CHR 0x0A] (upload_rom_messages args) = [] then ''Unknow error occured''
              else str_join [CHR 0x0A] (upload_rom_messages args))]"
    by (simp add: form_invalid_def json_response_def Let_def l)
  from v s c show ?thesis by blast
qed

text \<open>The theorem at a delete form and an upload form with two messages on its file.\<close>

theorem json_upload_view_responses_witness:
  "length (filter (\<lambda>g. form_key g = ''upload'') [delete_unknown_form, upload_two_messages_form])
     \<le> 1
   \<and> upload_rom_messages [delete_unknown_form, upload_two_messages_form]
       = [''Bad extension'', ''Too big'']
   \<and> (\<exists>r. json_upload_form_valid (Inr ''/roms/snes/mario.smc'') = Inr r
              \<and> status_code r = 200 \<and> content r = JsonDumps [''status'' \<mapsto> ''success''])
   \<and> status_code (form_invalid [delete_unknown_form, upload_two_messages_form]) = 400
   \<and> content (form_invalid [delete_unknown_form, upload_two_messages_form]) =
       JsonDumps [''error'' \<mapsto> ''Bad extension'' @ [CHR 0x0A] @ ''Too big'']"
proof -
  have h: "length (filter (\<lambda>g. form_key g = ''upload'')
                     [delete_unknown_form, upload_two_messages_form]) \<le> 1"
    by (simp add: delete_unknown_form_def upload_two_messages_form_def)
  have m: "upload_rom_messages [delete_unknown_form, upload_two_messages_form]
             = [''Bad extension'', ''Too big'']"
    by (simp add: upload_rom_messages_def rom_messages_def delete_unknown_form_def
          upload_two_messages_form_def)
  from json_upload_view_responses
         [of "[delete_unknown_form, upload_two_messages_form]" "''/roms/snes/mario.smc''", OF h]
       h m
  show ?thesis by simp
qed

text \<open>Two lists of forms that agree on the keys and the \<open>rom\<close> messages give one message.\<close>

lemma form_invalid_other_fields_ignored:
  "map (\<lambda>g. (form_key g, errors g ''rom'')) args = map (\<lambda>g. (form_key g, errors g ''rom'')) args'
     \<Longrightarrow> form_invalid_loop args acc = form_invalid_loop args' acc"
proof (induction args arbitrary: args' acc)
  case Nil
  then show ?case by simp
next
  case (Cons g args)
  then obtain g' rest where a: "args' = g' # rest" by (cases args') auto
  with Cons.prems have k: "form_key g = form_key g'" and e: "errors g ''rom'' = errors g' ''rom''"
    and r: "map (\<lambda>g. (form_key g, errors g ''rom'')) args = map (\<lambda>g. (form_key g, errors g ''rom'')) rest"
    by auto
  from Cons.IH [OF r] a k e show ?case
    by (simp split: option.splits)
qed

text \<open>
  C7. Every response of \<^verbatim>\<open>json_response\<close>, so the error response of
  \<^verbatim>\<open>form_invalid\<close> and the success response of \<^verbatim>\<open>upload_form_valid\<close>, has the
  content type \<open>application/json; charset=utf-8\<close> and the headers \<open>Pragma: no-cache\<close>
  and \<open>Cache-Control: no-cache, no-store, must-revalidate, max-age=0\<close>.
\<close>

theorem json_responses_disable_caching:
  "no_cache_json (json_response backend klass)
   \<and> no_cache_json (form_invalid args)
   \<and> (\<exists>r. json_upload_form_valid (Inr uploaded_file) = Inr r \<and> no_cache_json r)"
  by (simp add: no_cache_json_def json_response_def form_invalid_def json_upload_form_valid_def
        Let_def)

text \<open>
  C9. When no upload form among the invalid forms has a message on its \<open>rom\<close> field
  (in particular when there is no upload form), the response of \<^verbatim>\<open>form_invalid\<close>
  has status 400 and the body \<open>{"error": "Unknow error occured"}\<close>.
\<close>

theorem form_invalid_fallback:
  assumes "\<forall>f\<in>set args. form_key f = ''upload'' \<longrightarrow> rom_messages f = []"
  shows "status_code (form_invalid args) = 400
       \<and> content (form_invalid args) = JsonDumps [''error'' \<mapsto> ''Unknow error occured'']"
proof -
  have "form_invalid_loop args [] = []"
    using assms by (rule form_invalid_loop_no_rom_message)
  then show ?thesis
    by (simp add: form_invalid_def json_response_def Let_def)
qed

text \<open>The theorem at a delete form and an upload form refused as a whole.\<close>

theorem form_invalid_fallback_witness:
  "form_key delete_unknown_form \<noteq> ''upload''
   \<and> rom_messages upload_refused_form = []
   \<and> status_code (form_invalid [delete_unknown_form, upload_refused_form]) = 400
   \<and> content (form_invalid [delete_unknown_form, upload_refused_form])
       = JsonDumps [''error'' \<mapsto> ''Unknow error occured'']"
proof -
  have h: "\<forall>f\<in>set [delete_unknown_form, upload_refused_form].
       form_key f = ''upload'' \<longrightarrow> rom_messages f = []"
    by (simp add: rom_messages_def delete_unknown_form_def upload_refused_form_def)
  have k: "form_key delete_unknown_form \<noteq> ''upload''"
    by (simp add: delete_unknown_form_def)
  have m: "rom_messages upload_refused_form = []"
    by (simp add: rom_messages_def upload_refused_form_def)
  from form_invalid_fallback [OF h] k m show ?thesis by blast
qed

text \<open>Two more responses: no upload form at all, and one message on the file.\<close>

lemma form_invalid_no_upload_form:
  "content (form_invalid [delete_unknown_form]) = JsonDumps [''error'' \<mapsto> ''Unknow error occured'']"
  by (simp add: form_invalid_def json_response_def delete_unknown_form_def)

lemma form_invalid_single_message:
  "content (form_invalid [upload_no_file_form]) = JsonDumps [''error'' \<mapsto> ''This field is required.'']"
  by (simp add: form_invalid_def json_response_def upload_no_file_form_def)

text \<open>So the response depends on the forms through their keys and \<open>rom\<close> messages only.\<close>

lemma form_invalid_ignores_other_fields:
  assumes "map (\<lambda>g. (form_key g, errors g ''rom'')) args = map (\<lambda>g. (form_key g, errors g ''rom'')) args'"
  shows "form_invalid args = form_invalid args'"
  using form_invalid_other_fields_ignored [OF assms, of "[]"]
  by (simp add: form_invalid_def)

section \<open>Deleting\<close>

lemma get_delete_form_kwargs_choices:
  assumes "snd (get_rom_choices fs self) = Inr roms"
  shows "snd (get_delete_form_kwargs fs self kwargs) =
           Inr (kwargs(''romchoices'' \<mapsto> KwChoices roms, ''system'' \<mapsto> KwStr (system_key self)))"
proof -
  obtain ops r where g: "get_rom_choices fs self = (ops, r)"
    by (cases "get_rom_choices fs self")
  with assms have "r = Inr roms" by simp
  with g show ?thesis by (simp add: get_delete_form_kwargs_def)
qed

lemma spec_delete_clean_unknown:
  assumes "n \<in> set selected" and "n \<notin> fst ` set roms"
  shows "\<exists>u. spec_delete_clean roms selected = Inl (ValidationError u)
            \<and> u \<in> set selected \<and> u \<notin> fst ` set roms"
proof (cases "find (\<lambda>n. n \<notin> set (map fst roms)) selected")
  case None
  with assms show ?thesis by (auto simp: find_None_iff)
next
  case (Some u)
  then have "u \<in> set selected \<and> u \<notin> fst ` set roms"
    by (auto simp: find_Some_iff)
  with Some show ?thesis by (simp add: spec_delete_clean_def)
qed

text \<open>
  C8. The \<open>romchoices\<close> that \<^verbatim>\<open>get_delete_form_kwargs\<close> gives the delete form are the
  current ROM listing of the system. With the delete form of the spec, a submission
  that contains a name not in that listing ends in a validation error naming a
  submitted name that is not in the listing, the filesystem is the same afterwards,
  and so the listing is the same before and after.
\<close>

theorem delete_unknown_file_rejected:
  assumes "snd (get_rom_choices fs self) = Inr roms"
      and "n \<in> set selected" and "n \<notin> fst ` set roms"
  shows "(\<exists>kw. snd (get_delete_form_kwargs fs self kwargs) = Inr kw
               \<and> kw ''romchoices'' = Some (KwChoices roms))
       \<and> (\<exists>u. delete_submission fs self kwargs selected = (fs, Inl (ValidationError u))
               \<and> u \<in> set selected \<and> u \<notin> fst ` set roms)
       \<and> get_rom_choices (fst (delete_submission fs self kwargs selected)) self
           = get_rom_choices fs self"
proof -
  have k: "snd (get_delete_form_kwargs fs self kwargs) =
           Inr (kwargs(''romchoices'' \<mapsto> KwChoices roms, ''system'' \<mapsto> KwStr (system_key self)))"
    by (rule get_delete_form_kwargs_choices [OF assms(1)])
  obtain ops where k': "get_delete_form_kwargs fs self kwargs =
      (ops, Inr (kwargs(''romchoices'' \<mapsto> KwChoices roms, ''system'' \<mapsto> KwStr (system_key self))))"
    using k by (cases "get_delete_form_kwargs fs self kwargs") simp
  from spec_delete_clean_unknown [OF assms(2,3)] obtain u where
    u: "spec_delete_clean roms selected = Inl (ValidationError u)"
       "u \<in> set selected" "u \<notin> fst ` set roms"
    by blast
  have d: "delete_submission fs self kwargs selected = (fs, Inl (ValidationError u))"
    by (simp add: delete_submission_def k' u(1))
  from k have a: "\<exists>kw. snd (get_delete_form_kwargs fs self kwargs) = Inr kw
               \<and> kw ''romchoices'' = Some (KwChoices roms)"
    by simp
  from d u have b: "\<exists>u. delete_submission fs self kwargs selected = (fs, Inl (ValidationError u))
               \<and> u \<in> set selected \<and> u \<notin> fst ` set roms"
    by blast
  from d have c: "get_rom_choices (fst (delete_submission fs self kwargs selected)) self
           = get_rom_choices fs self"
    by simp
  from a b c show ?thesis by blast
qed

text \<open>
  The theorem at the example: \<open>mario.smc\<close> is submitted together with the unknown
  \<open>ghost.smc\<close>, and \<open>mario.smc\<close> is not deleted.
\<close>

theorem delete_unknown_file_rejected_witness:
  "snd (get_rom_choices example_fs snes_view) = Inr [(''mario.smc'', 1024), (''zelda.smc'', 2048)]
   \<and> ''ghost.smc'' \<in> set [''mario.smc'', ''ghost.smc'']
   \<and> ''ghost.smc'' \<notin> fst ` set [(''mario.smc'', 1024::nat), (''zelda.smc'', 2048)]
   \<and> delete_submission example_fs snes_view delete_kwargs [''mario.smc'', ''ghost.smc'']
        = (example_fs, Inl (ValidationError ''ghost.smc''))
   \<and> get_rom_choices
        (fst (delete_submission example_fs snes_view delete_kwargs [''mario.smc'', ''ghost.smc'']))
        snes_view
       = get_rom_choices example_fs snes_view"
proof -
  have h1: "snd (get_rom_choices example_fs snes_view)
              = Inr [(''mario.smc'', 1024), (''zelda.smc'', 2048)]"
    by (simp add: get_rom_choices_def example_fs_def snes_view_def os_listdir_def os_path_join_def
        startswith_def endswith_def os_path_isfile_def os_path_getsize_def)
  have h2: "''ghost.smc'' \<in> set [''mario.smc'', ''ghost.smc'']" by simp
  have h3: "''ghost.smc'' \<notin> fst ` set [(''mario.smc'', 1024::nat), (''zelda.smc'', 2048)]" by simp
  from delete_unknown_file_rejected [OF h1 h2 h3, of delete_kwargs]
  obtain u where
    d: "delete_submission example_fs snes_view delete_kwargs [''mario.smc'', ''ghost.smc'']
          = (example_fs, Inl (ValidationError u))"
    and u: "u \<in> set [''mario.smc'', ''ghost.smc'']"
           "u \<notin> fst ` set [(''mario.smc'', 1024::nat), (''zelda.smc'', 2048)]"
    by blast
  from u have "u = ''ghost.smc''" by auto
  with d h1 h2 h3 show ?thesis by simp
qed

text \<open>A valid submission does delete: afterwards the listing has lost \<open>mario.smc\<close>.\<close>

lemma delete_known_file_example:
  "snd (delete_submission example_fs snes_view delete_kwargs [''mario.smc''])
     = Inr [''/roms/snes/mario.smc'']
   \<and> snd (get_rom_choices
            (fst (delete_submission example_fs snes_view delete_kwargs [''mario.smc'']))
            snes_view)
     = Inr [(''zelda.smc'', 2048)]"
  by (simp add: delete_submission_def get_delete_form_kwargs_def spec_delete_clean_def
        os_remove_def get_rom_choices_def example_fs_def snes_view_def os_listdir_def
        os_path_join_def startswith_def endswith_def os_path_isfile_def os_path_getsize_def
        delete_kwargs_def)

section \<open>Flash messages\<close>

text \<open>The basename of a file of a directory is its name in that directory.\<close>

lemma basename_of_join:
  assumes "CHR ''/'' \<notin> set name"
  shows "os_path_basename (os_path_join path name) = name"
proof -
  from assms have t: "takeWhile (\<lambda>c. c \<noteq> CHR ''/'') (rev name) = rev name"
    by (auto simp: takeWhile_eq_all_conv)
  from assms have n: "\<not> startswith name ''/''"
    by (cases name) (auto simp: startswith_def)
  have e: "endswith path ''/'' \<Longrightarrow> \<exists>p. path = p @ ''/''"
    by (metis append_take_drop_id endswith_def)
  have a: "os_path_basename (p @ ''/'' @ name) = name" for p
  proof -
    have "takeWhile (\<lambda>c. c \<noteq> CHR ''/'') (rev name @ CHR ''/'' # rev p) = rev name"
      using assms by (subst takeWhile_append2) auto
    then show ?thesis by (simp add: os_path_basename_def)
  qed
  have b: "os_path_basename name = name"
    unfolding os_path_basename_def t by simp
  show ?thesis
  proof (cases "path = []")
    case True
    with n b show ?thesis by (simp add: os_path_join_def)
  next
    case False
    show ?thesis
    proof (cases "endswith path ''/''")
      case True
      then obtain p where "path = p @ ''/''" using e by blast
      with n True a [of p] show ?thesis by (simp add: os_path_join_def)
    next
      case False
      with n \<open>path \<noteq> []\<close> a [of path] show ?thesis by (simp add: os_path_join_def)
    qed
  qed
qed

text \<open>
  C10. After a delete form was saved, \<^verbatim>\<open>delete_form_valid\<close> appends one success
  message exactly when \<^verbatim>\<open>save\<close> returned at least one deleted file, and the argument
  of that message is the basenames of the deleted files joined by a comma and a
  space; otherwise the messages are unchanged. After an upload form was saved,
  \<^verbatim>\<open>upload_form_valid\<close> always appends a success message whose argument is the
  basename of the stored file.
\<close>

theorem flash_messages_of_valid_forms:
  "delete_form_valid messages (Inr saved) =
      Inr (case saved of
             Some (d # ds) \<Rightarrow>
               messages @ [Success (Formatted ''Deleted file(s): {}''
                                      (str_join '', '' (map os_path_basename (d # ds))))]
           | _ \<Rightarrow> messages)
   \<and> ((\<exists>m. delete_form_valid messages (Inr saved) = Inr (messages @ [m]))
        \<longleftrightarrow> (\<exists>d ds. saved = Some (d # ds)))
   \<and> upload_form_valid messages (Inr uploaded_file) =
        Inr (messages @ [Success (Formatted ''File has been uploaded: {}''
                                    (os_path_basename uploaded_file))])"
proof -
  have a: "delete_form_valid messages (Inr saved) =
      Inr (case saved of
             Some (d # ds) \<Rightarrow>
               messages @ [Success (Formatted ''Deleted file(s): {}''
                                      (str_join '', '' (map os_path_basename (d # ds))))]
           | _ \<Rightarrow> messages)"
    by (simp add: delete_form_valid_def split: option.splits list.splits)
  have b: "(\<exists>m. delete_form_valid messages (Inr saved) = Inr (messages @ [m]))
        \<longleftrightarrow> (\<exists>d ds. saved = Some (d # ds))"
    unfolding a by (auto split: option.splits list.splits)
  have c: "upload_form_valid messages (Inr uploaded_file) =
        Inr (messages @ [Success (Formatted ''File has been uploaded: {}''
                                    (os_path_basename uploaded_file))])"
    by (simp add: upload_form_valid_def)
  from a b c show ?thesis by blast
qed

text \<open>The messages of the example.\<close>

lemma delete_message_example:
  "delete_form_valid [] (Inr (Some [''/roms/snes/mario.smc'', ''/roms/snes/zelda.smc'']))
     = Inr [Success (Formatted ''Deleted file(s): {}'' ''mario.smc, zelda.smc'')]"
  by (simp add: delete_form_valid_def os_path_basename_def)

lemma delete_nothing_example:
  "delete_form_valid [] (Inr (Some [])) = Inr [] \<and> delete_form_valid [] (Inr None) = Inr []"
  by (simp add: delete_form_valid_def)

lemma upload_message_example:
  "upload_form_valid [] (Inr ''/roms/snes/mario.smc'')
     = Inr [Success (Formatted ''File has been uploaded: {}'' ''mario.smc'')]"
  by (simp add: upload_form_valid_def os_path_basename_def)

end
